theory Spec2Isabelle
  imports Main "HOL-Library.Word"
begin

section \<open>Values of the standard library\<close>

text \<open>
  A \<^verbatim>\<open>time.Time\<close> is an instant: seconds since January 1, year 1, and the
  nanoseconds within the second. Its zero value \<^verbatim>\<open>time.Time{}\<close> has both at 0, and
  \<^verbatim>\<open>IsZero\<close> tests exactly that. The reading of the clock, \<^verbatim>\<open>time.Now()\<close>, is an
  input of every operation that takes one.
\<close>

datatype Time = Time (sec: int) (nsec: nat)

definition zeroTime :: Time where
  "zeroTime = Time 0 0"

definition IsZero :: "Time \<Rightarrow> bool" where
  "IsZero t = (sec t = 0 \<and> nsec t = 0)"

text \<open>A Go \<^verbatim>\<open>error\<close> value, by its message.\<close>

datatype error = Error string

text \<open>
  A call either returns or panics. A panic unwinds the stack, running the deferred
  functions, and ends the process when nothing recovers from it.
\<close>

datatype outcome = Returned | Panicked string

section \<open>The engine session\<close>

text \<open>
  Modelled from the spec: the engine session \<^verbatim>\<open>sdb.Conn\<close> of package \<^verbatim>\<open>db\<close>, which
  package \<^verbatim>\<open>store\<close> only consumes. The spec gives it two predicates, a
  transaction-active predicate and a foreign-key-constraint-mode predicate; the source
  calls them as \<^verbatim>\<open>TransactionActive() bool\<close> and \<^verbatim>\<open>FKConstraints() (bool, error)\<close>.
  The session is the pair of what the two would report now.
\<close>

record Conn =
  txActive :: bool
  fkMode :: "error + bool"

definition TransactionActive :: "Conn \<Rightarrow> bool" where
  "TransactionActive d = txActive d"

definition FKConstraints :: "Conn \<Rightarrow> error + bool" where
  "FKConstraints d = fkMode d"

section \<open>Connection\<close>

text \<open>
  Pointers are addresses. \<^verbatim>\<open>*Store\<close> is only passed on, so a store is its address.
  A \<^verbatim>\<open>*Connection\<close> is an address into a heap of connections: several detectors hold
  the same connection, and what one writes the others read. Every address holds a
  connection; a pointer that may be \<^verbatim>\<open>nil\<close> is an optional address, and
  dereferencing \<^verbatim>\<open>nil\<close> is the run-time panic of the language.

  The logger is its prefix and its flags (\<^verbatim>\<open>log.LstdFlags\<close> is 3). The two mutexes
  \<^verbatim>\<open>timeMu\<close> and \<^verbatim>\<open>txStateMu\<close> are no fields of the model: every operation here is
  one atomic step, which is what a mutex locked on entry and unlocked by \<^verbatim>\<open>defer\<close>
  gives, on return and on panic alike.
\<close>

type_synonym addr = nat

datatype Logger = Logger (log_prefix: string) (log_flags: nat)

record Connection =
  db :: Conn
  store :: addr
  id_conn :: "64 word"
  createdAt :: Time
  lastUsedAt :: Time
  txStartedAt :: Time
  logger :: Logger

type_synonym heap = "addr \<Rightarrow> Connection"

text \<open>
  \<^verbatim>\<open>NewConnection(c, s, id)\<close>: the composite literal names five fields; the two it
  leaves out, \<^verbatim>\<open>lastUsedAt\<close> and \<^verbatim>\<open>txStartedAt\<close>, get the zero value.
\<close>

definition NewConnection :: "Conn \<Rightarrow> addr \<Rightarrow> 64 word \<Rightarrow> Time \<Rightarrow> Connection" where
  "NewConnection d s i now =
     \<lparr> db = d, store = s, id_conn = i, createdAt = now,
       lastUsedAt = zeroTime, txStartedAt = zeroTime,
       logger = Logger ''[connection] '' 3 \<rparr>"

definition ID :: "Connection \<Rightarrow> 64 word" where
  "ID cn = id_conn cn"

section \<open>TxStateChange\<close>

text \<open>
  The detector's \<^verbatim>\<open>c\<close> is a pointer that may be \<^verbatim>\<open>nil\<close>: the type is exported, and its
  zero value has \<^verbatim>\<open>c = nil\<close>, \<^verbatim>\<open>tx = false\<close> and \<^verbatim>\<open>done = false\<close>.
\<close>

definition nilDereference :: string where
  "nilDereference = ''runtime error: invalid memory address or nil pointer dereference''"

record TxStateChange =
  c_ptr :: "addr option"
  tx :: bool
  done_flag :: bool

text \<open>
  \<^verbatim>\<open>NewTxStateChange(c)\<close> reads \<^verbatim>\<open>c.db\<close>: on \<^verbatim>\<open>nil\<close> it panics and there is no
  detector (\<open>Inl\<close>, with the panic's message).
\<close>

definition NewTxStateChange :: "addr option \<Rightarrow> heap \<Rightarrow> string + TxStateChange" where
  "NewTxStateChange p h =
     (case p of
        None \<Rightarrow> Inl nilDereference
      | Some a \<Rightarrow>
          Inr \<lparr> c_ptr = Some a, tx = TransactionActive (db (h a)), done_flag = False \<rparr>)"

text \<open>
  \<^verbatim>\<open>CheckAndSet\<close>. Its first statement, \<^verbatim>\<open>t.c.txStateMu.Lock()\<close>, dereferences \<^verbatim>\<open>t.c\<close>
  before any \<^verbatim>\<open>defer\<close> is registered: with \<^verbatim>\<open>t.c = nil\<close> the call panics there and
  nothing has changed, the \<^verbatim>\<open>done\<close> flag included. Otherwise the deferred
  \<^verbatim>\<open>t.done = true\<close> runs on every exit, so the detector that comes back has the flag
  set, also from the panic of line 127. The two conditions are evaluated left to right
  with short-circuit \<^verbatim>\<open>&&\<close>; whichever way they go, the engine is asked once: by the
  first condition when \<^verbatim>\<open>t.tx\<close> is false, by the second when it is true.
\<close>

definition CheckAndSet :: "TxStateChange \<Rightarrow> heap \<Rightarrow> Time \<Rightarrow> outcome \<times> TxStateChange \<times> heap" where
  "CheckAndSet t h now =
     (case c_ptr t of
        None \<Rightarrow> (Panicked nilDereference, t, h)
      | Some a \<Rightarrow>
          (let cn = h a;
               t' = t\<lparr>done_flag := True\<rparr>
           in if done_flag t then
                (Panicked ''CheckAndSet should only be called once'', t', h)
              else if \<not> tx t \<and> TransactionActive (db cn) \<and> IsZero (txStartedAt cn) then
                (Returned, t', h(a := cn\<lparr>txStartedAt := now\<rparr>))
              else if tx t \<and> \<not> TransactionActive (db cn) \<and> \<not> IsZero (txStartedAt cn) then
                (Returned, t', h(a := cn\<lparr>txStartedAt := zeroTime\<rparr>))
              else
                (Returned, t', h)))"

text \<open>
  What SQL run on the session of connection \<open>a\<close> does to the engine's transaction state
  (a \<^verbatim>\<open>BEGIN\<close>, a \<^verbatim>\<open>COMMIT\<close>, a \<^verbatim>\<open>ROLLBACK\<close>): the environment's move, the only one
  that changes what \<^verbatim>\<open>TransactionActive\<close> reports.
\<close>

definition setEngine :: "addr \<Rightarrow> bool \<Rightarrow> heap \<Rightarrow> heap" where
  "setEngine a b h = h(a := (h a)\<lparr>db := (db (h a))\<lparr>txActive := b\<rparr>\<rparr>)"

section \<open>Runs of detectors over one heap\<close>

text \<open>
  The exported interface lets a caller construct detectors and reconcile them in any
  order, while the engine moves in between. A world is the heap, the detectors
  constructed so far, and whether a panic has ended the process; a run is a list of
  events, and nothing happens after a panic.
\<close>

record world =
  conns :: heap
  dets :: "TxStateChange list"
  crashed :: bool

datatype event = Construct "addr option" | Engine addr bool | Reconcile nat Time

fun step :: "world \<Rightarrow> event \<Rightarrow> world" where
  "step w (Construct p) =
     (case NewTxStateChange p (conns w) of
        Inl msg \<Rightarrow> w\<lparr>crashed := True\<rparr>
      | Inr t \<Rightarrow> w\<lparr>dets := dets w @ [t]\<rparr>)"
| "step w (Engine a b) = w\<lparr>conns := setEngine a b (conns w)\<rparr>"
| "step w (Reconcile i now) =
     (if i < length (dets w) then
        (case CheckAndSet (dets w ! i) (conns w) now of
           (Returned, t', h') \<Rightarrow> w\<lparr>conns := h', dets := (dets w)[i := t']\<rparr>
         | (Panicked msg, t', h') \<Rightarrow>
             w\<lparr>conns := h', dets := (dets w)[i := t'], crashed := True\<rparr>)
      else w)"

definition run :: "world \<Rightarrow> event list \<Rightarrow> world" where
  "run w evs = foldl (\<lambda>v e. if crashed v then v else step v e) w evs"

text \<open>
  Modelled from the spec: the flow of one operation of the Store collaborator, which
  "creates a TxStateChange before issuing SQL through the engine, then invokes the
  reconciliation call afterward". The SQL is the list of the engine's moves it causes.
\<close>

definition operation :: "addr \<Rightarrow> bool list \<Rightarrow> Time \<Rightarrow> heap \<Rightarrow> outcome \<times> heap" where
  "operation a bs now h =
     (case NewTxStateChange (Some a) h of
        Inl msg \<Rightarrow> (Panicked msg, h)
      | Inr t \<Rightarrow>
          (let h1 = foldl (\<lambda>g b. setEngine a b g) h bs;
               r = CheckAndSet t h1 now
           in (fst r, snd (snd r))))"

fun operations :: "addr \<Rightarrow> (bool list \<times> Time) list \<Rightarrow> heap \<Rightarrow> outcome \<times> heap" where
  "operations a [] h = (Returned, h)"
| "operations a ((bs, now) # ops) h =
     (case operation a bs now h of
        (Returned, h') \<Rightarrow> operations a ops h'
      | (Panicked msg, h') \<Rightarrow> (Panicked msg, h'))"

text \<open>The cached start time agrees with the engine.\<close>

definition agrees :: "heap \<Rightarrow> addr \<Rightarrow> bool" where
  "agrees h a = ((\<not> IsZero (txStartedAt (h a))) = TransactionActive (db (h a)))"

section \<open>The store's execute path\<close>

text \<open>
  \<^verbatim>\<open>ExecuteRequest\<close> is built by position in the source: a list of statements and two
  booleans.
\<close>

datatype ExecuteRequest = ExecuteRequest "string list" bool bool

text \<open>
  Modelled from the spec: the Store collaborator's
  \<^verbatim>\<open>execute(connection, request) \<rightarrow> (response, error)\<close>. It is a parameter: from the
  store's address, the connection's address, the request and the state it works on (the
  heap and the store's own state), it gives the response, the error (\<open>None\<close> for
  \<^verbatim>\<open>nil\<close>) and the state after. \<open>store_execute\<close> is a call of it, which the universe
  records in its log of calls.
\<close>

type_synonym ('r, 's) execute_fn =
  "addr \<Rightarrow> addr \<Rightarrow> ExecuteRequest \<Rightarrow> heap \<times> 's \<Rightarrow> ('r \<times> error option) \<times> heap \<times> 's"

record 's universe =
  u_heap :: heap
  u_store :: 's
  u_calls :: "(addr \<times> addr \<times> ExecuteRequest) list"

definition store_execute ::
  "('r, 's) execute_fn \<Rightarrow> addr \<Rightarrow> addr \<Rightarrow> ExecuteRequest \<Rightarrow> 's universe
     \<Rightarrow> ('r \<times> error option) \<times> 's universe" where
  "store_execute ex s a rq u =
     (let r = ex s a rq (u_heap u, u_store u)
      in (fst r, \<lparr> u_heap = fst (snd r), u_store = snd (snd r),
                   u_calls = u_calls u @ [(s, a, rq)] \<rparr>))"

definition Execute ::
  "('r, 's) execute_fn \<Rightarrow> addr \<Rightarrow> ExecuteRequest \<Rightarrow> 's universe
     \<Rightarrow> ('r \<times> error option) \<times> 's universe" where
  "Execute ex a rq u = store_execute ex (store (u_heap u a)) a rq u"

definition AbortTransaction ::
  "('r, 's) execute_fn \<Rightarrow> addr \<Rightarrow> 's universe \<Rightarrow> error option \<times> 's universe" where
  "AbortTransaction ex a u =
     (let r = store_execute ex (store (u_heap u a)) a
                (ExecuteRequest [''ROLLBACK''] False False) u
      in (snd (fst r), snd r))"

section \<open>Status serialization\<close>

text \<open>
  The values \<^verbatim>\<open>MarshalJSON\<close> stores in its \<^verbatim>\<open>map[string]interface{}\<close>. The helper
  \<^verbatim>\<open>enabledFromBool\<close> lives in another file of package \<^verbatim>\<open>store\<close> and
  \<^verbatim>\<open>json.Marshal\<close> in the standard library: both are parameters. \<open>statusMap\<close> is
  the map as the assignments build it, in their order, for the mode the engine
  reported; \<^verbatim>\<open>MarshalJSON\<close> hands it to \<^verbatim>\<open>json.Marshal\<close>, unless the engine's
  \<^verbatim>\<open>FKConstraints\<close> failed, whose error it returns.
\<close>

datatype iface = IString string | IUint64 "64 word" | ITime Time

definition statusMap :: "(bool \<Rightarrow> iface) \<Rightarrow> Connection \<Rightarrow> bool \<Rightarrow> (string \<rightharpoonup> iface)" where
  "statusMap enabledFromBool cn fk =
     (let m0 = Map.empty;
          m1 = m0(''fk_constraints'' \<mapsto> enabledFromBool fk);
          m2 = m1(''id'' \<mapsto> IUint64 (id_conn cn));
          m3 = m2(''created_at'' \<mapsto> ITime (createdAt cn));
          m4 = (if \<not> IsZero (txStartedAt cn)
                then m3(''tx_started_at'' \<mapsto> ITime (txStartedAt cn)) else m3);
          m5 = (if \<not> IsZero (lastUsedAt cn)
                then m4(''last_used_at'' \<mapsto> ITime (lastUsedAt cn)) else m4)
      in m5)"

definition MarshalJSON ::
  "((string \<rightharpoonup> iface) \<Rightarrow> error + 'b) \<Rightarrow> (bool \<Rightarrow> iface) \<Rightarrow> Connection \<Rightarrow> error + 'b" where
  "MarshalJSON jsonMarshal enabledFromBool cn =
     (case FKConstraints (db cn) of
        Inl err \<Rightarrow> Inl err
      | Inr fk \<Rightarrow> jsonMarshal (statusMap enabledFromBool cn fk))"

section \<open>Concrete states\<close>

text \<open>
  An idle engine with foreign keys on, a connection made on it at second 100, a heap
  that holds this connection, and the detector \<open>det0\<close> that \<^verbatim>\<open>NewTxStateChange\<close> makes
  on it.
\<close>

definition engine0 :: Conn where
  "engine0 = \<lparr> txActive = False, fkMode = Inr True \<rparr>"

definition conn0 :: Connection where
  "conn0 = NewConnection engine0 7 1 (Time 100 0)"

definition heap0 :: heap where
  "heap0 = (\<lambda>a. conn0)"

definition det0 :: TxStateChange where
  "det0 = \<lparr> c_ptr = Some 0, tx = False, done_flag = False \<rparr>"

definition world0 :: world where
  "world0 = \<lparr> conns = heap0, dets = [], crashed = False \<rparr>"

text \<open>
  The engine has begun a transaction and \<open>det0\<close> has recorded second 200 as its start;
  \<open>det1\<close> is the detector that \<^verbatim>\<open>NewTxStateChange\<close> makes while the transaction is
  active. \<open>detZero\<close> is the zero value of the type.
\<close>

definition heap1 :: heap where
  "heap1 = snd (snd (CheckAndSet det0 (setEngine 0 True heap0) (Time 200 0)))"

definition det1 :: TxStateChange where
  "det1 = \<lparr> c_ptr = Some 0, tx = True, done_flag = False \<rparr>"

definition detZero :: TxStateChange where
  "detZero = \<lparr> c_ptr = None, tx = False, done_flag = False \<rparr>"

definition enabled0 :: "bool \<Rightarrow> iface" where
  "enabled0 b = IString (if b then ''enabled'' else ''disabled'')"

definition marshal0 :: "(string \<rightharpoonup> iface) \<Rightarrow> error + (string \<rightharpoonup> iface)" where
  "marshal0 m = Inr m"

lemmas concrete_defs =
  engine0_def conn0_def heap0_def det0_def world0_def heap1_def det1_def detZero_def
  NewConnection_def NewTxStateChange_def setEngine_def TransactionActive_def
  FKConstraints_def IsZero_def zeroTime_def

section \<open>The reconciliation table\<close>

text \<open>
  C1. A first call of \<^verbatim>\<open>CheckAndSet\<close> on a detector of the connection at \<open>a\<close> returns,
  and the start time of that connection afterwards is given by the four rows of the
  table, by the flag captured at construction and the engine's report at the call: not
  active then not active, no change; not active then active, the current time when the
  start time was unset (and no change when it was set); active then active, no change;
  active then not active, the zero time when the start time was set (and no change
  when it was unset). No other connection of the heap changes.
\<close>

theorem CheckAndSet_table:
  assumes "c_ptr t = Some a" and "\<not> done_flag t"
  shows "fst (CheckAndSet t h now) = Returned \<and>
    snd (snd (CheckAndSet t h now)) =
      h(a := (h a)\<lparr>txStartedAt :=
         (if \<not> tx t \<and> \<not> TransactionActive (db (h a)) then txStartedAt (h a)
          else if \<not> tx t \<and> TransactionActive (db (h a)) then
            (if IsZero (txStartedAt (h a)) then now else txStartedAt (h a))
          else if tx t \<and> TransactionActive (db (h a)) then txStartedAt (h a)
          else
            (if IsZero (txStartedAt (h a)) then txStartedAt (h a)
             else zeroTime))\<rparr>)"
  using assms by (auto simp: CheckAndSet_def Let_def)

theorem CheckAndSet_table_witness:
  "NewTxStateChange (Some 0) heap0 = Inr det0 \<and>
   c_ptr det0 = Some 0 \<and> \<not> done_flag det0 \<and>
   fst (CheckAndSet det0 (setEngine 0 True heap0) (Time 200 0)) = Returned \<and>
   txStartedAt (snd (snd (CheckAndSet det0 (setEngine 0 True heap0) (Time 200 0))) 0) = Time 200 0"
  using CheckAndSet_table [of det0 0 "setEngine 0 True heap0" "Time 200 0"]
  by (simp add: concrete_defs)

section \<open>A second call\<close>

text \<open>
  C2. Whatever the first call of \<^verbatim>\<open>CheckAndSet\<close> on a detector met and did, a
  second call on the detector it left panics, for every heap (every start time and
  every engine state) and every clock reading it may meet, and it leaves the heap as it
  found it. The panic is the one of the source, "CheckAndSet should only be called
  once"; on a detector without a connection both calls panic on the \<^verbatim>\<open>nil\<close> pointer.
\<close>

theorem CheckAndSet_twice_panics:
  "fst (CheckAndSet (fst (snd (CheckAndSet t h now))) h2 now2) =
     Panicked (if c_ptr t = None then nilDereference
               else ''CheckAndSet should only be called once'') \<and>
   snd (snd (CheckAndSet (fst (snd (CheckAndSet t h now))) h2 now2)) = h2"
  by (cases "c_ptr t") (simp_all add: CheckAndSet_def Let_def)

section \<open>The cached start time and the engine\<close>

lemma foldl_setEngine_other:
  "txStartedAt (foldl (\<lambda>g b. setEngine a b g) h bs a) = txStartedAt (h a)"
  by (induction bs arbitrary: h) (simp_all add: setEngine_def)

lemma CheckAndSet_agrees_step:
  assumes "c_ptr t = Some a" and "\<not> done_flag t"
    and "tx t = (\<not> IsZero (txStartedAt (h a)))"
    and "\<not> IsZero now"
  shows "fst (CheckAndSet t h now) = Returned"
    and "agrees (snd (snd (CheckAndSet t h now))) a"
  using assms
  by (auto simp: CheckAndSet_def Let_def agrees_def IsZero_def zeroTime_def)

text \<open>
  Operations that do not overlap keep the agreement: when the start time agrees with
  the engine before an operation, it agrees after it, whatever the SQL did in between.
\<close>

lemma operation_agrees:
  assumes "agrees h a" and "\<not> IsZero now"
  shows "fst (operation a bs now h) = Returned \<and> agrees (snd (operation a bs now h)) a"
proof -
  let ?t = "\<lparr> c_ptr = Some a, tx = TransactionActive (db (h a)), done_flag = False \<rparr>"
  let ?h1 = "foldl (\<lambda>g b. setEngine a b g) h bs"
  have new: "NewTxStateChange (Some a) h = Inr ?t"
    by (simp add: NewTxStateChange_def)
  have ptr: "c_ptr ?t = Some a" and nd: "\<not> done_flag ?t"
    by simp_all
  have "tx ?t = (\<not> IsZero (txStartedAt (h a)))"
    using assms(1) by (simp add: agrees_def)
  then have cap: "tx ?t = (\<not> IsZero (txStartedAt (?h1 a)))"
    by (simp add: foldl_setEngine_other)
  from CheckAndSet_agrees_step [of ?t a ?h1 now] ptr nd cap assms(2)
  show ?thesis by (simp add: operation_def Let_def new)
qed

lemma operations_agree:
  assumes "agrees h a" and "list_all (\<lambda>p. \<not> IsZero (snd p)) ops"
  shows "fst (operations a ops h) = Returned \<and> agrees (snd (operations a ops h)) a"
  using assms
proof (induction ops arbitrary: h)
  case Nil
  then show ?case by simp
next
  case (Cons p ops)
  obtain bs now where p: "p = (bs, now)" by (cases p)
  from Cons.prems have nz: "\<not> IsZero now" and rest: "list_all (\<lambda>p. \<not> IsZero (snd p)) ops"
    by (simp_all add: p)
  obtain h' where op: "operation a bs now h = (Returned, h')" and ag: "agrees h' a"
    using operation_agrees [OF Cons.prems(1) nz, of bs] by (cases "operation a bs now h") auto
  show ?case
    using Cons.IH [OF ag rest] by (simp add: p op)
qed

text \<open>
  C3, as the claim states it, fails. On a new connection a detector is constructed, the
  engine begins a transaction, and a second detector is constructed before the first
  is reconciled. The second detector captured an active transaction and meets one at
  its reconciliation, so its call completes as a no-op: the start time is still zero,
  while the engine reported an active transaction at this most recent reconciliation.
\<close>

theorem overlap_counterexample:
  "\<not> crashed (run world0
     [Construct (Some 0), Engine 0 True, Construct (Some 0), Reconcile 1 (Time 200 0)]) \<and>
   done_flag (dets (run world0
     [Construct (Some 0), Engine 0 True, Construct (Some 0), Reconcile 1 (Time 200 0)]) ! 1) \<and>
   TransactionActive (db (conns (run world0
     [Construct (Some 0), Engine 0 True, Construct (Some 0), Reconcile 1 (Time 200 0)]) 0)) \<and>
   IsZero (txStartedAt (conns (run world0
     [Construct (Some 0), Engine 0 True, Construct (Some 0), Reconcile 1 (Time 200 0)]) 0))"
  by (simp add: run_def CheckAndSet_def Let_def concrete_defs)

text \<open>
  C3, amended. A reconciliation completes when the detector has a connection and has
  not been used. After one that completes, at a non-zero clock reading, the start time
  is non-zero exactly when the engine reported an active transaction at the call, in
  every case but one: the detector observes no transition (its captured flag equals
  the engine's report) while the start time it meets disagrees with that flag. So the
  equivalence holds whenever a transition is observed, whatever the start time was,
  and, when none is observed, exactly when the start time was already non-zero
  exactly when the flag is true. The engine's state is not touched by the call.
\<close>

theorem CheckAndSet_restores_agreement:
  assumes "c_ptr t = Some a" and "\<not> done_flag t" and "\<not> IsZero now"
  shows "fst (CheckAndSet t h now) = Returned \<and>
    (((\<not> IsZero (txStartedAt (snd (snd (CheckAndSet t h now)) a))) =
        TransactionActive (db (h a))) =
     (tx t = TransactionActive (db (h a)) \<longrightarrow> tx t = (\<not> IsZero (txStartedAt (h a))))) \<and>
    db (snd (snd (CheckAndSet t h now)) a) = db (h a)"
  using assms
  by (auto simp: CheckAndSet_def Let_def IsZero_def zeroTime_def)

theorem CheckAndSet_restores_agreement_witness:
  "NewTxStateChange (Some 0) heap1 = Inr det1 \<and>
   c_ptr det1 = Some 0 \<and> \<not> done_flag det1 \<and> \<not> IsZero (Time 300 0) \<and>
   tx det1 = TransactionActive (db (heap1 0)) \<and>
   tx det1 = (\<not> IsZero (txStartedAt (heap1 0))) \<and>
   fst (CheckAndSet det1 heap1 (Time 300 0)) = Returned \<and>
   (\<not> IsZero (txStartedAt (snd (snd (CheckAndSet det1 heap1 (Time 300 0))) 0))) =
     TransactionActive (db (heap1 0)) \<and>
   txStartedAt (snd (snd (CheckAndSet det1 heap1 (Time 300 0))) 0) = Time 200 0 \<and>
   fst (CheckAndSet det1 (setEngine 0 False heap1) (Time 300 0)) = Returned \<and>
   (\<not> IsZero (txStartedAt
      (snd (snd (CheckAndSet det1 (setEngine 0 False heap1) (Time 300 0))) 0))) =
     TransactionActive (db (setEngine 0 False heap1 0)) \<and>
   txStartedAt (snd (snd (CheckAndSet det1 (setEngine 0 False heap1) (Time 300 0))) 0) =
     zeroTime"
  using CheckAndSet_restores_agreement [of det1 0 "Time 300 0" heap1]
    CheckAndSet_restores_agreement [of det1 0 "Time 300 0" "setEngine 0 False heap1"]
  by (simp add: CheckAndSet_def Let_def concrete_defs)

section \<open>The guards\<close>

text \<open>
  C4. A detector of the connection at \<open>a\<close> that captured no active transaction and
  meets an active one, on a start time that is already set, leaves the heap as it
  found it: the start time recorded earlier is not overwritten with the current time.
\<close>

theorem CheckAndSet_keeps_recorded_start:
  assumes "c_ptr t = Some a"
    and "\<not> tx t"
    and "TransactionActive (db (h a))"
    and "\<not> IsZero (txStartedAt (h a))"
  shows "snd (snd (CheckAndSet t h now)) = h \<and>
    txStartedAt (snd (snd (CheckAndSet t h now)) a) = txStartedAt (h a)"
  using assms by (simp add: CheckAndSet_def Let_def)

theorem CheckAndSet_keeps_recorded_start_witness:
  "c_ptr det0 = Some 0 \<and> \<not> tx det0 \<and> TransactionActive (db (heap1 0)) \<and>
   \<not> IsZero (txStartedAt (heap1 0)) \<and>
   fst (CheckAndSet det0 heap1 (Time 300 0)) = Returned \<and>
   txStartedAt (snd (snd (CheckAndSet det0 heap1 (Time 300 0))) 0) = Time 200 0"
  using CheckAndSet_keeps_recorded_start [of det0 0 heap1 "Time 300 0"]
  by (simp add: CheckAndSet_def Let_def concrete_defs)

text \<open>
  C5. A first call on a detector of the connection at \<open>a\<close> that captured an active
  transaction and meets none, on a start time that is zero, returns (it does not
  panic) and leaves the heap as it found it.
\<close>

theorem CheckAndSet_unset_is_noop:
  assumes "c_ptr t = Some a"
    and "\<not> done_flag t"
    and "tx t"
    and "\<not> TransactionActive (db (h a))"
    and "IsZero (txStartedAt (h a))"
  shows "fst (CheckAndSet t h now) = Returned \<and> snd (snd (CheckAndSet t h now)) = h"
  using assms by (simp add: CheckAndSet_def Let_def)

theorem CheckAndSet_unset_is_noop_witness:
  "NewTxStateChange (Some 0) (setEngine 0 True heap0) = Inr det1 \<and>
   c_ptr det1 = Some 0 \<and> \<not> done_flag det1 \<and> tx det1 \<and>
   \<not> TransactionActive (db (heap0 0)) \<and> IsZero (txStartedAt (heap0 0)) \<and>
   fst (CheckAndSet det1 heap0 (Time 300 0)) = Returned \<and>
   snd (snd (CheckAndSet det1 heap0 (Time 300 0))) = heap0"
  using CheckAndSet_unset_is_noop [of det1 0 heap0 "Time 300 0"]
  by (simp add: concrete_defs)

section \<open>What a call leaves alone\<close>

text \<open>
  C10, as the claim states it, fails. On the zero value of the detector's type, whose
  connection pointer is \<^verbatim>\<open>nil\<close>, the call panics on the first statement, before the
  deferred assignment is registered: \<^verbatim>\<open>done\<close> is still false after the call.
\<close>

theorem nil_detector_counterexample:
  "fst (CheckAndSet detZero heap0 (Time 200 0)) = Panicked nilDereference \<and>
   \<not> done_flag (fst (snd (CheckAndSet detZero heap0 (Time 200 0))))"
  by (simp add: CheckAndSet_def detZero_def)

text \<open>
  C10, amended. Every call of \<^verbatim>\<open>CheckAndSet\<close>, returning or panicking, leaves a heap
  that differs from the one it met at most in the start time of the detector's
  connection: the id, the creation time and the last-used time of every connection
  are as before. On a detector with a connection (every detector \<^verbatim>\<open>NewTxStateChange\<close>
  makes) it gives back the detector with its \<^verbatim>\<open>done\<close> flag set and nothing else of it
  changed, in every case, the panic of a reused detector included, and it panics
  exactly when the flag was already set. On a detector whose connection pointer is
  \<^verbatim>\<open>nil\<close> it panics and changes nothing, the flag included.
\<close>

theorem CheckAndSet_frame:
  "fst (snd (CheckAndSet t h now)) =
     (if c_ptr t = None then t else t\<lparr>done_flag := True\<rparr>) \<and>
   done_flag (fst (snd (CheckAndSet t h now))) =
     (if c_ptr t = None then done_flag t else True) \<and>
   fst (CheckAndSet t h now) =
     (if c_ptr t = None then Panicked nilDereference
      else if done_flag t then Panicked ''CheckAndSet should only be called once''
      else Returned) \<and>
   snd (snd (CheckAndSet t h now)) =
     (case c_ptr t of
        None \<Rightarrow> h
      | Some p \<Rightarrow>
          h(p := (h p)\<lparr>txStartedAt := txStartedAt (snd (snd (CheckAndSet t h now)) p)\<rparr>)) \<and>
   id_conn (snd (snd (CheckAndSet t h now)) a) = id_conn (h a) \<and>
   createdAt (snd (snd (CheckAndSet t h now)) a) = createdAt (h a) \<and>
   lastUsedAt (snd (snd (CheckAndSet t h now)) a) = lastUsedAt (h a)"
  by (cases "c_ptr t") (simp_all add: CheckAndSet_def Let_def)

theorem CheckAndSet_frame_witness:
  "c_ptr det0 = Some 0 \<and>
   fst (CheckAndSet det0 (setEngine 0 True heap0) (Time 200 0)) = Returned \<and>
   done_flag (fst (snd (CheckAndSet det0 (setEngine 0 True heap0) (Time 200 0)))) \<and>
   fst (CheckAndSet (det0\<lparr>done_flag := True\<rparr>) heap1 (Time 300 0)) =
     Panicked ''CheckAndSet should only be called once'' \<and>
   done_flag (fst (snd (CheckAndSet (det0\<lparr>done_flag := True\<rparr>) heap1 (Time 300 0)))) \<and>
   createdAt (snd (snd (CheckAndSet det0 (setEngine 0 True heap0) (Time 200 0))) 0) =
     Time 100 0"
  using CheckAndSet_frame [of det0 "setEngine 0 True heap0" "Time 200 0" 0]
    CheckAndSet_frame [of "det0\<lparr>done_flag := True\<rparr>" heap1 "Time 300 0" 0]
  by (simp add: concrete_defs)

section \<open>Rolling back\<close>

text \<open>
  C7. For every store, \<^verbatim>\<open>AbortTransaction\<close> on the connection at \<open>a\<close> adds one call to
  the log of the store's execute path: the call on the connection's own store, with
  the connection's own address, for the one statement \<^verbatim>\<open>ROLLBACK\<close> and both flags
  false. It returns the error of that call as it is (an error or none), and the state
  is the one that call left.
\<close>

theorem AbortTransaction_one_rollback:
  "fst (AbortTransaction ex a u) =
     snd (fst (ex (store (u_heap u a)) a (ExecuteRequest [''ROLLBACK''] False False)
       (u_heap u, u_store u))) \<and>
   u_calls (snd (AbortTransaction ex a u)) =
     u_calls u @ [(store (u_heap u a), a, ExecuteRequest [''ROLLBACK''] False False)] \<and>
   u_heap (snd (AbortTransaction ex a u)) =
     fst (snd (ex (store (u_heap u a)) a (ExecuteRequest [''ROLLBACK''] False False)
       (u_heap u, u_store u))) \<and>
   u_store (snd (AbortTransaction ex a u)) =
     snd (snd (ex (store (u_heap u a)) a (ExecuteRequest [''ROLLBACK''] False False)
       (u_heap u, u_store u)))"
  by (simp add: AbortTransaction_def store_execute_def Let_def)

section \<open>The serialized status\<close>

lemma statusMap_dom:
  "dom (statusMap ef cn fk) =
     {''fk_constraints'', ''id'', ''created_at''}
     \<union> (if IsZero (txStartedAt cn) then {} else {''tx_started_at''})
     \<union> (if IsZero (lastUsedAt cn) then {} else {''last_used_at''})"
  by (auto simp: statusMap_def Let_def)

text \<open>
  C6. \<^verbatim>\<open>MarshalJSON\<close> serializes the status map of the connection, for the mode the
  engine reports (when the engine's call fails there is no status: its error is
  returned). For every connection and mode, that map holds the id, the creation time
  and the mode under their keys; it holds the transaction start exactly when
  \<^verbatim>\<open>txStartedAt\<close> is non-zero and the last use exactly when \<^verbatim>\<open>lastUsedAt\<close> is
  non-zero, each with the field's value; and it has no other key.
\<close>

theorem MarshalJSON_fields:
  "MarshalJSON jm ef cn =
     (case FKConstraints (db cn) of
        Inl err \<Rightarrow> Inl err
      | Inr b \<Rightarrow> jm (statusMap ef cn b)) \<and>
   statusMap ef cn fk ''id'' = Some (IUint64 (id_conn cn)) \<and>
   statusMap ef cn fk ''created_at'' = Some (ITime (createdAt cn)) \<and>
   statusMap ef cn fk ''fk_constraints'' = Some (ef fk) \<and>
   (''tx_started_at'' \<in> dom (statusMap ef cn fk)) = (\<not> IsZero (txStartedAt cn)) \<and>
   (''last_used_at'' \<in> dom (statusMap ef cn fk)) = (\<not> IsZero (lastUsedAt cn)) \<and>
   statusMap ef cn fk ''tx_started_at'' =
     (if IsZero (txStartedAt cn) then None else Some (ITime (txStartedAt cn))) \<and>
   statusMap ef cn fk ''last_used_at'' =
     (if IsZero (lastUsedAt cn) then None else Some (ITime (lastUsedAt cn))) \<and>
   dom (statusMap ef cn fk) \<subseteq>
     {''fk_constraints'', ''id'', ''created_at'', ''tx_started_at'', ''last_used_at''}"
proof -
  have "MarshalJSON jm ef cn =
     (case FKConstraints (db cn) of
        Inl err \<Rightarrow> Inl err
      | Inr b \<Rightarrow> jm (statusMap ef cn b))"
    by (simp add: MarshalJSON_def)
  moreover have "statusMap ef cn fk ''id'' = Some (IUint64 (id_conn cn))"
    and "statusMap ef cn fk ''created_at'' = Some (ITime (createdAt cn))"
    and "statusMap ef cn fk ''fk_constraints'' = Some (ef fk)"
    by (simp_all add: statusMap_def Let_def)
  moreover have "statusMap ef cn fk ''tx_started_at'' =
      (if IsZero (txStartedAt cn) then None else Some (ITime (txStartedAt cn)))"
    and "statusMap ef cn fk ''last_used_at'' =
      (if IsZero (lastUsedAt cn) then None else Some (ITime (lastUsedAt cn)))"
    by (simp_all add: statusMap_def Let_def)
  moreover have "dom (statusMap ef cn fk) \<subseteq>
      {''fk_constraints'', ''id'', ''created_at'', ''tx_started_at'', ''last_used_at''}"
    by (auto simp: statusMap_dom split: if_splits)
  ultimately show ?thesis
    by (simp add: dom_def)
qed

theorem MarshalJSON_fields_witness:
  "MarshalJSON marshal0 enabled0 (heap1 0) = Inr (statusMap enabled0 (heap1 0) True) \<and>
   statusMap enabled0 (heap1 0) True ''id'' = Some (IUint64 1) \<and>
   statusMap enabled0 (heap1 0) True ''created_at'' = Some (ITime (Time 100 0)) \<and>
   statusMap enabled0 (heap1 0) True ''fk_constraints'' = Some (IString ''enabled'') \<and>
   statusMap enabled0 (heap1 0) True ''tx_started_at'' = Some (ITime (Time 200 0)) \<and>
   statusMap enabled0 (heap1 0) True ''last_used_at'' = None"
  using MarshalJSON_fields [of marshal0 enabled0 "heap1 0" True]
  by (simp add: CheckAndSet_def Let_def concrete_defs marshal0_def enabled0_def)

text \<open>
  C9. A connection as \<^verbatim>\<open>NewConnection\<close> makes it has zero \<^verbatim>\<open>txStartedAt\<close> and
  \<^verbatim>\<open>lastUsedAt\<close> and the clock reading of its construction as \<^verbatim>\<open>createdAt\<close>. Its
  status map has the three keys of the mode, the id and the creation time and neither
  of the two optional ones, and that map is what \<^verbatim>\<open>MarshalJSON\<close> serializes when the
  engine reports its mode.
\<close>

theorem NewConnection_fresh:
  "txStartedAt (NewConnection d s i now) = zeroTime \<and>
   lastUsedAt (NewConnection d s i now) = zeroTime \<and>
   IsZero (txStartedAt (NewConnection d s i now)) \<and>
   IsZero (lastUsedAt (NewConnection d s i now)) \<and>
   createdAt (NewConnection d s i now) = now \<and>
   statusMap ef (NewConnection d s i now) fk ''tx_started_at'' = None \<and>
   statusMap ef (NewConnection d s i now) fk ''last_used_at'' = None \<and>
   dom (statusMap ef (NewConnection d s i now) fk) = {''fk_constraints'', ''id'', ''created_at''} \<and>
   MarshalJSON jm ef (NewConnection d s i now) =
     (case FKConstraints d of
        Inl err \<Rightarrow> Inl err
      | Inr b \<Rightarrow> jm [''fk_constraints'' \<mapsto> ef b, ''id'' \<mapsto> IUint64 i,
                    ''created_at'' \<mapsto> ITime now])"
proof -
  let ?cn = "NewConnection d s i now"
  have z: "IsZero (txStartedAt ?cn)" "IsZero (lastUsedAt ?cn)"
    by (simp_all add: NewConnection_def IsZero_def zeroTime_def)
  have m: "statusMap ef ?cn b =
      [''fk_constraints'' \<mapsto> ef b, ''id'' \<mapsto> IUint64 i, ''created_at'' \<mapsto> ITime now]" for b
    using z by (simp add: statusMap_def Let_def) (simp add: NewConnection_def)
  have "dom (statusMap ef ?cn fk) = {''fk_constraints'', ''id'', ''created_at''}"
    using z by (simp add: statusMap_dom)
  moreover have "MarshalJSON jm ef ?cn =
     (case FKConstraints d of
        Inl err \<Rightarrow> Inl err
      | Inr b \<Rightarrow> jm [''fk_constraints'' \<mapsto> ef b, ''id'' \<mapsto> IUint64 i,
                    ''created_at'' \<mapsto> ITime now])"
    by (simp add: MarshalJSON_def m split: sum.splits) (simp add: NewConnection_def)
  moreover have "statusMap ef ?cn fk ''tx_started_at'' = None"
    and "statusMap ef ?cn fk ''last_used_at'' = None"
    by (simp_all add: m)
  ultimately show ?thesis
    using z by (simp add: NewConnection_def)
qed

end
